theory Spec2Isabelle
  imports Main "HOL-Library.AList" "HOL-Library.Multiset"
begin

section \<open>Python string and integer primitives used by the rule\<close>

text \<open>\<^verbatim>\<open>s.startswith(prefix)\<close>\<close>

fun startswith :: "string \<Rightarrow> string \<Rightarrow> bool" where
  "startswith s [] = True"
| "startswith [] (c # cs) = False"
| "startswith (x # xs) (c # cs) = (x = c \<and> startswith xs cs)"

text \<open>\<^verbatim>\<open>sub in s\<close> on strings, that is \<^verbatim>\<open>s.__contains__(sub)\<close>\<close>

fun contains :: "string \<Rightarrow> string \<Rightarrow> bool" where
  "contains [] sub = (sub = [])"
| "contains (x # xs) sub = (startswith (x # xs) sub \<or> contains xs sub)"

text \<open>\<^verbatim>\<open>s.replace(old, new)\<close> for one-character \<^verbatim>\<open>old\<close> and \<^verbatim>\<open>new\<close>\<close>

definition replace :: "string \<Rightarrow> char \<Rightarrow> char \<Rightarrow> string" where
  "replace s old new = map (\<lambda>c. if c = old then new else c) s"

text \<open>\<^verbatim>\<open>str(n)\<close> on integers: decimal digits, a leading minus sign when negative\<close>

definition digit_char :: "nat \<Rightarrow> char" where
  "digit_char d = ''0123456789'' ! d"

fun str_nat :: "nat \<Rightarrow> string" where
  "str_nat n = (if n < 10 then [digit_char n] else str_nat (n div 10) @ [digit_char (n mod 10)])"

declare str_nat.simps [simp del]

definition str_int :: "int \<Rightarrow> string" where
  "str_int i = (if i < 0 then CHR ''-'' # str_nat (nat (- i)) else str_nat (nat i))"

section \<open>Data model\<close>

text \<open>
  One entry of \<^verbatim>\<open>memory_report["reports"]\<close>. It is a JSON object; a field is \<open>None\<close>
  when the key is absent, which is where the subscript raises \<^verbatim>\<open>KeyError\<close>. Kind, units
  and amount are Python integers, which are unbounded, hence \<^typ>\<open>int\<close>.
\<close>

record report =
  process :: "string option"
  path :: "string option"
  kind :: "int option"
  units :: "int option"
  amount :: "int option"

record memory_report =
  version :: "int option"
  reports :: "report list option"
  hasMozMallocUsableSize :: "bool option"

datatype error = ValueError string | KeyError string

abbreviation (input) KIND_NONHEAP :: int where "KIND_NONHEAP \<equiv> 0"
abbreviation (input) KIND_HEAP :: int where "KIND_HEAP \<equiv> 1"
abbreviation (input) UNITS_BYTES :: int where "UNITS_BYTES \<equiv> 0"

text \<open>
  A Python dict of integers keyed by strings, in insertion order: storing under an
  existing key keeps the key's position, storing under a new key appends, which is what
  \<^const>\<open>AList.update\<close> does.
\<close>

type_synonym metrics = "(string \<times> int) list"

definition metrics_measured :: metrics where
  "metrics_measured =
    [(''gfx-textures'', 0), (''ghost-windows'', 0), (''heap-allocated'', 0),
     (''host-object-urls'', 0), (''private'', 0), (''resident'', 0),
     (''resident-unique'', 0), (''system-heap-allocated'', 0),
     (''vsize-max-contiguous'', 0), (''vsize'', 0)]"

definition metrics_derived :: metrics where
  "metrics_derived =
    [(''explicit'', 0), (''heap-overhead'', 0), (''heap-unclassified'', 0),
     (''images'', 0), (''js-main-runtime'', 0), (''top-none-detached'', 0)]"

text \<open>\<^verbatim>\<open>d.update(other)\<close>\<close>

definition dict_update :: "metrics \<Rightarrow> metrics \<Rightarrow> metrics" where
  "dict_update d other = fold (\<lambda>(k, v). AList.update k v) other d"

text \<open>\<^verbatim>\<open>k in d\<close>\<close>

definition dict_in :: "string \<Rightarrow> metrics \<Rightarrow> bool" where
  "dict_in k d = (k \<in> set (map fst d))"

text \<open>\<^verbatim>\<open>d[k]\<close>, raising \<^verbatim>\<open>KeyError\<close> on an absent key\<close>

definition dict_get :: "metrics \<Rightarrow> string \<Rightarrow> error + int" where
  "dict_get d k = (case map_of d k of None \<Rightarrow> Inl (KeyError k) | Some v \<Rightarrow> Inr v)"

text \<open>\<^verbatim>\<open>d[k] += a\<close>: reads \<^verbatim>\<open>d[k]\<close>, then stores the sum\<close>

definition dict_iadd :: "metrics \<Rightarrow> string \<Rightarrow> int \<Rightarrow> error + metrics" where
  "dict_iadd d k a =
    (case dict_get d k of Inl e \<Rightarrow> Inl e | Inr v \<Rightarrow> Inr (AList.update k (v + a) d))"

text \<open>The local variables of \<^verbatim>\<open>_get_memory_measures\<close> that the loop changes.\<close>

record state =
  explicit_heap :: int
  explicit_nonheap :: int
  pid_found :: bool
  all_metrics :: metrics

definition all_metrics_iadd :: "state \<Rightarrow> string \<Rightarrow> int \<Rightarrow> error + state" where
  "all_metrics_iadd s k a =
    (case dict_iadd (all_metrics s) k a of
       Inl e \<Rightarrow> Inl e
     | Inr d \<Rightarrow> Inr (s\<lparr>all_metrics := d\<rparr>))"

section \<open>The rule \<^verbatim>\<open>MemoryReportExtraction._get_memory_measures\<close>\<close>

text \<open>The three-way \<^verbatim>\<open>if/elif/elif\<close> on the path of an \<^verbatim>\<open>explicit/\<close> report (lines 128 to 133).\<close>

definition explicit_buckets :: "string \<Rightarrow> int \<Rightarrow> state \<Rightarrow> error + state" where
  "explicit_buckets p a s =
    (if startswith p ''explicit/images/'' then all_metrics_iadd s ''images'' a
     else if contains p ''top(none)/detached'' then all_metrics_iadd s ''top-none-detached'' a
     else if startswith p ''explicit/heap-overhead/'' then all_metrics_iadd s ''heap-overhead'' a
     else Inr s)"

text \<open>The body of the loop over the reports (lines 97 to 139) for one report.\<close>

definition process_report :: "string \<Rightarrow> report \<Rightarrow> state \<Rightarrow> error + state" where
  "process_report pid_str r s =
    (case process r of None \<Rightarrow> Inl (KeyError ''process'') | Some proc \<Rightarrow>
     (if \<not> contains proc pid_str then Inr s
      else
       (let s = s\<lparr>pid_found := True\<rparr> in
       (case path r of None \<Rightarrow> Inl (KeyError ''path'') | Some p \<Rightarrow>
       (case kind r of None \<Rightarrow> Inl (KeyError ''kind'') | Some k \<Rightarrow>
       (case units r of None \<Rightarrow> Inl (KeyError ''units'') | Some u \<Rightarrow>
       (case amount r of None \<Rightarrow> Inl (KeyError ''amount'') | Some a \<Rightarrow>
       (if startswith p ''explicit/'' then
         (if u \<noteq> UNITS_BYTES then
           Inl (ValueError (''bad units for an explicit/ report: '' @ p @ '', '' @ str_int u))
          else if k = KIND_NONHEAP then
           explicit_buckets p a (s\<lparr>explicit_nonheap := explicit_nonheap s + a\<rparr>)
          else if k = KIND_HEAP then
           explicit_buckets p a (s\<lparr>explicit_heap := explicit_heap s + a\<rparr>)
          else
           Inl (ValueError (''bad kind for an explicit/ report: '' @ p @ '', '' @ str_int k)))
        else if startswith p ''js-main-runtime/'' then all_metrics_iadd s ''js-main-runtime'' a
        else if dict_in p metrics_measured then all_metrics_iadd s p a
        else Inr s))))))))"

text \<open>The loop: the first exception ends it.\<close>

fun process_reports :: "string \<Rightarrow> report list \<Rightarrow> state \<Rightarrow> error + state" where
  "process_reports pid_str [] s = Inr s"
| "process_reports pid_str (r # rs) s =
    (case process_report pid_str r s of
       Inl e \<Rightarrow> Inl e
     | Inr s' \<Rightarrow> process_reports pid_str rs s')"

text \<open>The dict comprehension of lines 151 to 153.\<close>

definition rename_keys :: "metrics \<Rightarrow> metrics" where
  "rename_keys d = fold (\<lambda>(key, val). AList.update (replace key CHR ''-'' CHR ''_'') val) d []"

text \<open>Lines 144 to 155: the two derived values, then the renaming.\<close>

definition derive :: "state \<Rightarrow> error + metrics" where
  "derive s =
    (case dict_get (all_metrics s) ''heap-allocated'' of Inl e \<Rightarrow> Inl e | Inr ha \<Rightarrow>
     (let d = AList.update ''heap-unclassified'' (ha - explicit_heap s) (all_metrics s) in
      (case dict_get d ''heap-allocated'' of Inl e \<Rightarrow> Inl e | Inr ha' \<Rightarrow>
       (let d' = AList.update ''explicit'' (ha' + explicit_nonheap s) d in
        Inr (rename_keys d')))))"

definition pid_str_of :: "int \<Rightarrow> string" where
  "pid_str_of pid = ''(pid '' @ str_int pid @ '')''"

definition initial_state :: state where
  "initial_state =
    \<lparr>explicit_heap = 0, explicit_nonheap = 0, pid_found = False,
     all_metrics = dict_update (dict_update [] metrics_measured) metrics_derived\<rparr>"

definition get_memory_measures :: "memory_report \<Rightarrow> int \<Rightarrow> error + metrics" where
  "get_memory_measures mr pid =
    (case reports mr of None \<Rightarrow> Inl (KeyError ''reports'') | Some rs \<Rightarrow>
     (case process_reports (pid_str_of pid) rs initial_state of
        Inl e \<Rightarrow> Inl e
      | Inr s \<Rightarrow>
         (if \<not> pid_found s then
            Inl (ValueError (''no measurements found for pid '' @ str_int pid))
          else derive s)))"

section \<open>Vocabulary for the properties\<close>

text \<open>The keys of \<^verbatim>\<open>all_metrics\<close>, in the order the two literals are merged.\<close>

definition metric_keys :: "string list" where
  "metric_keys = map fst metrics_measured @ map fst metrics_derived"

text \<open>
  What a property says about one report: it belongs to the requested process, its path
  has a prefix or a substring, its amount (0 when the key is absent), and whether all five
  keys that the loop reads are present.
\<close>

definition matches :: "string \<Rightarrow> report \<Rightarrow> bool" where
  "matches ps r = (case process r of None \<Rightarrow> False | Some proc \<Rightarrow> contains proc ps)"

definition path_startswith :: "string \<Rightarrow> report \<Rightarrow> bool" where
  "path_startswith pre r = (case path r of None \<Rightarrow> False | Some p \<Rightarrow> startswith p pre)"

definition path_contains :: "string \<Rightarrow> report \<Rightarrow> bool" where
  "path_contains sub r = (case path r of None \<Rightarrow> False | Some p \<Rightarrow> contains p sub)"

definition amount_of :: "report \<Rightarrow> int" where
  "amount_of r = (case amount r of None \<Rightarrow> 0 | Some a \<Rightarrow> a)"

definition complete :: "report \<Rightarrow> bool" where
  "complete r = (process r \<noteq> None \<and> path r \<noteq> None \<and> kind r \<noteq> None \<and> units r \<noteq> None \<and> amount r \<noteq> None)"

text \<open>The sum of the amounts of the reports that satisfy \<open>P\<close>.\<close>

definition sum_amounts :: "(report \<Rightarrow> bool) \<Rightarrow> report list \<Rightarrow> int" where
  "sum_amounts P rs = sum_list (map amount_of (filter P rs))"

text \<open>
  The two validations of lines 110 and 117 to 126, as a predicate on one report: it belongs
  to the process, it is under \<^verbatim>\<open>explicit/\<close>, and its units are not bytes or its kind is
  neither heap nor non-heap.
\<close>

definition malformed :: "string \<Rightarrow> report \<Rightarrow> bool" where
  "malformed ps r =
    (matches ps r \<and> path_startswith ''explicit/'' r \<and>
     (units r \<noteq> Some UNITS_BYTES \<or> (kind r \<noteq> Some KIND_NONHEAP \<and> kind r \<noteq> Some KIND_HEAP)))"

section \<open>A closed form of the loop\<close>

text \<open>
  The loop is summarised by three functions of the report alone, proved below to agree
  with \<^const>\<open>process_report\<close>: the key of \<^verbatim>\<open>all_metrics\<close> that a path adds to (none when
  the report is ignored), the exception a report raises (none when it is processed), and
  the amounts it adds to the two \<^verbatim>\<open>explicit_\<close> totals and to each key.
\<close>

definition bucket :: "string \<Rightarrow> string option" where
  "bucket p =
    (if startswith p ''explicit/'' then
       (if startswith p ''explicit/images/'' then Some ''images''
        else if contains p ''top(none)/detached'' then Some ''top-none-detached''
        else if startswith p ''explicit/heap-overhead/'' then Some ''heap-overhead''
        else None)
     else if startswith p ''js-main-runtime/'' then Some ''js-main-runtime''
     else if dict_in p metrics_measured then Some p
     else None)"

definition report_error :: "string \<Rightarrow> report \<Rightarrow> error option" where
  "report_error ps r =
    (case process r of None \<Rightarrow> Some (KeyError ''process'') | Some proc \<Rightarrow>
     (if \<not> contains proc ps then None
      else
       (case path r of None \<Rightarrow> Some (KeyError ''path'') | Some p \<Rightarrow>
       (case kind r of None \<Rightarrow> Some (KeyError ''kind'') | Some k \<Rightarrow>
       (case units r of None \<Rightarrow> Some (KeyError ''units'') | Some u \<Rightarrow>
       (case amount r of None \<Rightarrow> Some (KeyError ''amount'') | Some a \<Rightarrow>
       (if startswith p ''explicit/'' then
         (if u \<noteq> 0 then
           Some (ValueError (''bad units for an explicit/ report: '' @ p @ '', '' @ str_int u))
          else if k = 0 \<or> k = 1 then None
          else
           Some (ValueError (''bad kind for an explicit/ report: '' @ p @ '', '' @ str_int k)))
        else None)))))))"

fun first_error :: "string \<Rightarrow> report list \<Rightarrow> error option" where
  "first_error ps [] = None"
| "first_error ps (r # rs) =
    (case report_error ps r of Some e \<Rightarrow> Some e | None \<Rightarrow> first_error ps rs)"

definition kind_amount :: "string \<Rightarrow> int \<Rightarrow> report \<Rightarrow> int" where
  "kind_amount ps k r =
     (if matches ps r \<and> path_startswith ''explicit/'' r \<and> kind r = Some k then amount_of r else 0)"

definition bucket_amount :: "string \<Rightarrow> string \<Rightarrow> report \<Rightarrow> int" where
  "bucket_amount ps key r =
     (if matches ps r \<and> map_option bucket (path r) = Some (Some key) then amount_of r else 0)"

definition effect1 :: "string \<Rightarrow> report \<Rightarrow> state \<Rightarrow> state" where
  "effect1 ps r s =
    \<lparr>explicit_heap = explicit_heap s + kind_amount ps 1 r,
     explicit_nonheap = explicit_nonheap s + kind_amount ps 0 r,
     pid_found = (pid_found s \<or> matches ps r),
     all_metrics = map (\<lambda>(key, v). (key, v + bucket_amount ps key r)) (all_metrics s)\<rparr>"

definition effect :: "string \<Rightarrow> report list \<Rightarrow> state \<Rightarrow> state" where
  "effect ps rs s =
    \<lparr>explicit_heap = explicit_heap s + sum_list (map (kind_amount ps 1) rs),
     explicit_nonheap = explicit_nonheap s + sum_list (map (kind_amount ps 0) rs),
     pid_found = (pid_found s \<or> (\<exists>r\<in>set rs. matches ps r)),
     all_metrics = map (\<lambda>(key, v). (key, v + sum_list (map (bucket_amount ps key) rs))) (all_metrics s)\<rparr>"

definition total :: "string \<Rightarrow> report list \<Rightarrow> string \<Rightarrow> int" where
  "total ps rs key = sum_list (map (bucket_amount ps key) rs)"

text \<open>The returned dict when no report raises and one report matches the process.\<close>

definition memory_measures :: "string \<Rightarrow> report list \<Rightarrow> metrics" where
  "memory_measures ps rs =
    [(''gfx_textures'', total ps rs ''gfx-textures''),
     (''ghost_windows'', total ps rs ''ghost-windows''),
     (''heap_allocated'', total ps rs ''heap-allocated''),
     (''host_object_urls'', total ps rs ''host-object-urls''),
     (''private'', total ps rs ''private''),
     (''resident'', total ps rs ''resident''),
     (''resident_unique'', total ps rs ''resident-unique''),
     (''system_heap_allocated'', total ps rs ''system-heap-allocated''),
     (''vsize_max_contiguous'', total ps rs ''vsize-max-contiguous''),
     (''vsize'', total ps rs ''vsize''),
     (''explicit'', total ps rs ''heap-allocated'' + sum_list (map (kind_amount ps 0) rs)),
     (''heap_overhead'', total ps rs ''heap-overhead''),
     (''heap_unclassified'', total ps rs ''heap-allocated'' - sum_list (map (kind_amount ps 1) rs)),
     (''images'', total ps rs ''images''),
     (''js_main_runtime'', total ps rs ''js-main-runtime''),
     (''top_none_detached'', total ps rs ''top-none-detached'')]"

text \<open>
  A report feeds a key of \<^verbatim>\<open>all_metrics\<close> when its amount is added to the key's entry,
  directly in the loop or through the two derived values of lines 146 and 147.
\<close>

definition feeds :: "report \<Rightarrow> string \<Rightarrow> bool" where
  "feeds r key =
    (map_option bucket (path r) = Some (Some key) \<or>
     (key = ''explicit'' \<and>
        (path r = Some ''heap-allocated'' \<or>
         (path_startswith ''explicit/'' r \<and> kind r = Some KIND_NONHEAP))) \<or>
     (key = ''heap-unclassified'' \<and>
        (path r = Some ''heap-allocated'' \<or>
         (path_startswith ''explicit/'' r \<and> kind r = Some KIND_HEAP))))"

section \<open>The dict keeps its keys\<close>

lemma metric_keys_eq: "metric_keys =
  [''gfx-textures'', ''ghost-windows'', ''heap-allocated'', ''host-object-urls'', ''private'',
   ''resident'', ''resident-unique'', ''system-heap-allocated'', ''vsize-max-contiguous'',
   ''vsize'', ''explicit'', ''heap-overhead'', ''heap-unclassified'', ''images'',
   ''js-main-runtime'', ''top-none-detached'']"
  by (simp add: metric_keys_def metrics_measured_def metrics_derived_def)

lemma distinct_metric_keys: "distinct metric_keys"
  by (simp add: metric_keys_eq)

lemma init_metrics: "all_metrics initial_state = map (\<lambda>k. (k, 0)) metric_keys"
  by (simp add: initial_state_def dict_update_def metrics_measured_def metrics_derived_def metric_keys_def)

lemma init_keys: "map fst (all_metrics initial_state) = metric_keys"
  by (simp add: init_metrics comp_def)

lemma update_present:
  "distinct (map fst d) \<Longrightarrow> map_of d k = Some v \<Longrightarrow>
   AList.update k w d = map (\<lambda>(key, x). (key, if key = k then w else x)) d"
proof (induction d)
  case Nil
  then show ?case by simp
next
  case (Cons p d)
  obtain k' v' where p: "p = (k', v')" by (cases p)
  show ?case
  proof (cases "k' = k")
    case True
    with Cons.prems p have "k \<notin> fst ` set d" by auto
    then have "map (\<lambda>(key, x). (key, if key = k then w else x)) d = d"
      by (induction d) auto
    with True p show ?thesis by simp
  next
    case False
    with Cons p show ?thesis by simp
  qed
qed

lemma dict_iadd_present:
  assumes "distinct (map fst d)" and "k \<in> set (map fst d)"
  shows "dict_iadd d k a = Inr (map (\<lambda>(key, v). (key, v + (if k = key then a else 0))) d)"
proof -
  from assms(2) obtain v where v: "map_of d k = Some v"
    by (metis map_of_eq_None_iff not_Some_eq set_map)
  have "AList.update k (v + a) d = map (\<lambda>(key, x). (key, if key = k then v + a else x)) d"
    using update_present [OF assms(1) v] .
  also have "\<dots> = map (\<lambda>(key, v). (key, v + (if k = key then a else 0))) d"
  proof (rule map_cong [OF refl])
    fix p assume pd: "p \<in> set d"
    obtain key x where p: "p = (key, x)" by (cases p)
    have "key = k \<Longrightarrow> x = v"
      using map_of_is_SomeI [OF assms(1), of key x] pd p v by simp
    then show "(case p of (key, x) \<Rightarrow> (key, if key = k then v + a else x)) =
        (case p of (key, v) \<Rightarrow> (key, v + (if k = key then a else 0)))"
      using p by auto
  qed
  finally show ?thesis using v by (simp add: dict_iadd_def dict_get_def)
qed

lemma bucket_in_keys: "bucket p = Some k \<Longrightarrow> k \<in> set metric_keys"
  by (auto simp: bucket_def metric_keys_def dict_in_def metrics_derived_def split: if_splits)

lemma bump_none: "map (\<lambda>(key, v). (key, v + (0::int))) d = d"
  by (induction d) auto

lemma all_metrics_iadd_present:
  assumes "map fst (all_metrics s) = metric_keys" and "k \<in> set metric_keys"
  shows "all_metrics_iadd s k a =
    Inr (s\<lparr>all_metrics := map (\<lambda>(key, v). (key, v + (if k = key then a else 0))) (all_metrics s)\<rparr>)"
  using dict_iadd_present [of "all_metrics s" k a] assms distinct_metric_keys
  by (simp add: all_metrics_iadd_def)

section \<open>The loop body and the loop agree with the closed form\<close>

lemma process_report_closed:
  assumes keys: "map fst (all_metrics s) = metric_keys"
  shows "process_report ps r s =
    (case report_error ps r of Some e \<Rightarrow> Inl e | None \<Rightarrow> Inr (effect1 ps r s))"
proof (cases "matches ps r")
  case False
  then show ?thesis
    by (auto simp: process_report_def report_error_def effect1_def matches_def kind_amount_def
        bucket_amount_def bump_none split: option.splits)
next
  case True
  then obtain proc where proc: "process r = Some proc" "contains proc ps"
    by (auto simp: matches_def split: option.splits)
  show ?thesis
  proof (cases "report_error ps r")
    case (Some e)
    with proc show ?thesis
      by (auto simp: process_report_def report_error_def split: option.splits if_splits)
  next
    case None
    with proc obtain p k u a where f: "path r = Some p" "kind r = Some k" "units r = Some u"
        "amount r = Some a"
      by (auto simp: report_error_def split: option.splits if_splits)
    from None proc f have ok: "startswith p ''explicit/'' \<Longrightarrow> u = 0 \<and> (k = 0 \<or> k = 1)"
      by (auto simp: report_error_def split: if_splits)
    have ba: "\<And>key. bucket_amount ps key r = (if bucket p = Some key then a else 0)"
      using True f by (simp add: bucket_amount_def amount_of_def)
    have ka: "\<And>j. kind_amount ps j r = (if startswith p ''explicit/'' \<and> k = j then a else 0)"
      using True f by (simp add: kind_amount_def amount_of_def path_startswith_def)
    have iadd: "\<And>s' key. all_metrics s' = all_metrics s \<Longrightarrow> bucket p = Some key \<Longrightarrow>
        all_metrics_iadd s' key a =
        Inr (s'\<lparr>all_metrics := map (\<lambda>(key, v). (key, v + bucket_amount ps key r)) (all_metrics s)\<rparr>)"
      using all_metrics_iadd_present [OF _ bucket_in_keys] keys
      by (simp add: ba)
    have none: "bucket p = None \<Longrightarrow>
        map (\<lambda>(key, v). (key, v + bucket_amount ps key r)) (all_metrics s) = all_metrics s"
      by (simp add: ba bump_none)
    show ?thesis
    proof (cases "startswith p ''explicit/''")
      case ex: True
      with ok have u0: "u = 0" and k01: "k = 0 \<or> k = 1" by auto
      show ?thesis
      proof (cases "bucket p")
        case bn: None
        with ex u0 k01 None proc f none show ?thesis
          by (auto simp: process_report_def explicit_buckets_def effect1_def ka True bucket_def
              split: if_splits)
      next
        case (Some key)
        with ex u0 k01 None proc f
          iadd [of "s\<lparr>pid_found := True, explicit_nonheap := explicit_nonheap s + a\<rparr>" key]
          iadd [of "s\<lparr>pid_found := True, explicit_heap := explicit_heap s + a\<rparr>" key]
        show ?thesis
          by (auto simp: process_report_def explicit_buckets_def effect1_def ka True bucket_def
              split: if_splits)
      qed
    next
      case nex: False
      show ?thesis
      proof (cases "bucket p")
        case bn: None
        with nex None proc f none show ?thesis
          by (simp add: process_report_def effect1_def ka True bucket_def split: if_splits)
      next
        case (Some key)
        with nex None proc f iadd [of "s\<lparr>pid_found := True\<rparr>" key] show ?thesis
          by (auto simp: process_report_def effect1_def ka True bucket_def split: if_splits)
      qed
    qed
  qed
qed

lemma effect1_keys: "map fst (all_metrics (effect1 ps r s)) = map fst (all_metrics s)"
  by (simp add: effect1_def comp_def case_prod_beta)

lemma effect_Nil: "effect ps [] s = s"
  by (simp add: effect_def bump_none)

lemma effect_Cons: "effect ps (r # rs) s = effect ps rs (effect1 ps r s)"
  by (auto simp: effect_def effect1_def comp_def case_prod_beta add.assoc)

lemma process_reports_closed:
  "map fst (all_metrics s) = metric_keys \<Longrightarrow>
   process_reports ps rs s =
    (case first_error ps rs of Some e \<Rightarrow> Inl e | None \<Rightarrow> Inr (effect ps rs s))"
proof (induction rs arbitrary: s)
  case Nil
  then show ?case by (simp add: effect_Nil)
next
  case (Cons r rs)
  show ?case
  proof (cases "report_error ps r")
    case None
    with Cons.prems have "process_report ps r s = Inr (effect1 ps r s)"
      by (simp add: process_report_closed)
    moreover have "map fst (all_metrics (effect1 ps r s)) = metric_keys"
      using Cons.prems by (simp add: effect1_keys)
    ultimately show ?thesis using None Cons.IH [of "effect1 ps r s"]
      by (simp add: effect_Cons split: option.splits)
  next
    case (Some e)
    with Cons.prems show ?thesis by (simp add: process_report_closed)
  qed
qed

section \<open>The derived values and the renaming\<close>

lemma derive_closed:
  "derive \<lparr>explicit_heap = eh, explicit_nonheap = en, pid_found = f, all_metrics =
    [(''gfx-textures'', v1), (''ghost-windows'', v2), (''heap-allocated'', v3),
     (''host-object-urls'', v4), (''private'', v5), (''resident'', v6),
     (''resident-unique'', v7), (''system-heap-allocated'', v8),
     (''vsize-max-contiguous'', v9), (''vsize'', v10), (''explicit'', v11),
     (''heap-overhead'', v12), (''heap-unclassified'', v13), (''images'', v14),
     (''js-main-runtime'', v15), (''top-none-detached'', v16)]\<rparr> =
   Inr [(''gfx_textures'', v1), (''ghost_windows'', v2), (''heap_allocated'', v3),
     (''host_object_urls'', v4), (''private'', v5), (''resident'', v6),
     (''resident_unique'', v7), (''system_heap_allocated'', v8),
     (''vsize_max_contiguous'', v9), (''vsize'', v10), (''explicit'', v3 + en),
     (''heap_overhead'', v12), (''heap_unclassified'', v3 - eh), (''images'', v14),
     (''js_main_runtime'', v15), (''top_none_detached'', v16)]"
  by (simp add: derive_def dict_get_def rename_keys_def replace_def)

lemma derive_effect: "derive (effect ps rs initial_state) = Inr (memory_measures ps rs)"
  by (simp add: effect_def init_metrics metric_keys_eq derive_closed memory_measures_def total_def
      initial_state_def [THEN arg_cong [where f = explicit_heap]]
      initial_state_def [THEN arg_cong [where f = explicit_nonheap]]
      initial_state_def [THEN arg_cong [where f = pid_found]])

lemma pid_found_effect: "pid_found (effect ps rs initial_state) = (\<exists>r\<in>set rs. matches ps r)"
  by (simp add: effect_def initial_state_def)

lemma get_memory_measures_closed:
  assumes "reports mr = Some rs"
  shows "get_memory_measures mr pid =
    (case first_error (pid_str_of pid) rs of
       Some e \<Rightarrow> Inl e
     | None \<Rightarrow>
        (if \<exists>r\<in>set rs. matches (pid_str_of pid) r then Inr (memory_measures (pid_str_of pid) rs)
         else Inl (ValueError (''no measurements found for pid '' @ str_int pid))))"
  using assms
  by (simp add: get_memory_measures_def process_reports_closed [OF init_keys]
      derive_effect pid_found_effect split: option.splits)

section \<open>Prefixes, substrings and the routing of a path\<close>

lemma startswith_iff: "startswith s pre \<longleftrightarrow> (\<exists>t. s = pre @ t)"
  by (induction s pre rule: startswith.induct) auto

lemma startswith_append_self: "startswith (pre @ t) pre"
  by (simp add: startswith_iff)

lemma contains_iff: "contains s sub \<longleftrightarrow> (\<exists>a b. s = a @ sub @ b)"
proof (induction s)
  case Nil
  then show ?case by auto
next
  case (Cons x xs)
  show ?case
  proof
    assume "contains (x # xs) sub"
    then consider "startswith (x # xs) sub" | "contains xs sub" by auto
    then show "\<exists>a b. x # xs = a @ sub @ b"
    proof cases
      case 1
      then obtain t where "x # xs = sub @ t" by (auto simp: startswith_iff)
      then have "x # xs = [] @ sub @ t" by simp
      then show ?thesis by blast
    next
      case 2
      with Cons obtain a b where "xs = a @ sub @ b" by auto
      then have "x # xs = (x # a) @ sub @ b" by simp
      then show ?thesis by blast
    qed
  next
    assume "\<exists>a b. x # xs = a @ sub @ b"
    then obtain a b where ab: "x # xs = a @ sub @ b" by auto
    show "contains (x # xs) sub"
    proof (cases a)
      case Nil
      with ab have "startswith (x # xs) sub" by (simp add: startswith_iff)
      then show ?thesis by simp
    next
      case (Cons y ys)
      with ab have "xs = ys @ sub @ b" by simp
      with Cons.IH show ?thesis by auto
    qed
  qed
qed

lemma explicit_images_explicit: "startswith p ''explicit/images/'' \<Longrightarrow> startswith p ''explicit/''"
  by (auto simp: startswith_iff)

lemma explicit_overhead_explicit:
  "startswith p ''explicit/heap-overhead/'' \<Longrightarrow> startswith p ''explicit/''"
  by (auto simp: startswith_iff)

lemma explicit_overhead_not_images:
  "startswith p ''explicit/heap-overhead/'' \<Longrightarrow> \<not> startswith p ''explicit/images/''"
  by (auto simp: startswith_iff)

lemma bucket_images: "bucket p = Some ''images'' \<longleftrightarrow> startswith p ''explicit/images/''"
  using explicit_images_explicit [of p]
  by (auto simp: bucket_def dict_in_def metrics_measured_def)

lemma bucket_detached:
  "bucket p = Some ''top-none-detached'' \<longleftrightarrow>
   startswith p ''explicit/'' \<and> \<not> startswith p ''explicit/images/'' \<and> contains p ''top(none)/detached''"
  by (auto simp: bucket_def dict_in_def metrics_measured_def)

lemma bucket_overhead:
  "bucket p = Some ''heap-overhead'' \<longleftrightarrow>
   startswith p ''explicit/heap-overhead/'' \<and> \<not> contains p ''top(none)/detached''"
  using explicit_overhead_explicit [of p] explicit_overhead_not_images [of p]
  by (auto simp: bucket_def dict_in_def metrics_measured_def)

lemma bucket_measured:
  "dict_in key metrics_measured \<Longrightarrow> bucket p = Some key \<longleftrightarrow> p = key"
  by (auto simp: bucket_def dict_in_def metrics_measured_def)

lemma sum_list_if: "sum_list (map (\<lambda>r. if P r then f r else (0::int)) rs) = sum_list (map f (filter P rs))"
  by (induction rs) auto

lemma total_sum_amounts:
  "total ps rs key = sum_amounts (\<lambda>r. matches ps r \<and> map_option bucket (path r) = Some (Some key)) rs"
  unfolding total_def sum_amounts_def bucket_amount_def by (rule sum_list_if)

lemma kind_sum_amounts:
  "sum_list (map (kind_amount ps k) rs) =
   sum_amounts (\<lambda>r. matches ps r \<and> path_startswith ''explicit/'' r \<and> kind r = Some k) rs"
  unfolding sum_amounts_def kind_amount_def by (rule sum_list_if)

lemma sum_amounts_cong:
  "(\<And>r. r \<in> set rs \<Longrightarrow> P r = Q r) \<Longrightarrow> sum_amounts P rs = sum_amounts Q rs"
  unfolding sum_amounts_def by (induction rs) auto

lemma get_memory_measures_Inr:
  assumes "reports mr = Some rs" and "get_memory_measures mr pid = Inr m"
  shows "m = memory_measures (pid_str_of pid) rs"
    and "first_error (pid_str_of pid) rs = None"
    and "\<exists>r\<in>set rs. matches (pid_str_of pid) r"
  using assms by (auto simp: get_memory_measures_closed split: option.splits if_splits)

lemma map_of_measures:
  "map_of (memory_measures ps rs) ''images'' = Some (total ps rs ''images'')"
  "map_of (memory_measures ps rs) ''top_none_detached'' = Some (total ps rs ''top-none-detached'')"
  "map_of (memory_measures ps rs) ''heap_overhead'' = Some (total ps rs ''heap-overhead'')"
  "map_of (memory_measures ps rs) ''heap_allocated'' = Some (total ps rs ''heap-allocated'')"
  "map_of (memory_measures ps rs) ''heap_unclassified'' =
     Some (total ps rs ''heap-allocated'' - sum_list (map (kind_amount ps 1) rs))"
  "map_of (memory_measures ps rs) ''explicit'' =
     Some (total ps rs ''heap-allocated'' + sum_list (map (kind_amount ps 0) rs))"
  by (simp_all add: memory_measures_def)

section \<open>Zero sums and the key list\<close>

lemma sum_list_zero: "(\<And>x. x \<in> set xs \<Longrightarrow> f x = (0::int)) \<Longrightarrow> sum_list (map f xs) = 0"
  by (induction xs) auto

lemma total_zero:
  assumes "\<And>r. r \<in> set rs \<Longrightarrow> matches ps r \<Longrightarrow> map_option bucket (path r) \<noteq> Some (Some key)"
  shows "total ps rs key = 0"
  unfolding total_def using assms by (intro sum_list_zero) (auto simp: bucket_amount_def)

lemma kind_zero:
  assumes "\<And>r. r \<in> set rs \<Longrightarrow> matches ps r \<Longrightarrow>
    \<not> (path_startswith ''explicit/'' r \<and> kind r = Some k)"
  shows "sum_list (map (kind_amount ps k) rs) = 0"
  using assms by (intro sum_list_zero) (auto simp: kind_amount_def)

lemma heap_allocated_zero:
  assumes "\<And>r. r \<in> set rs \<Longrightarrow> matches ps r \<Longrightarrow> path r \<noteq> Some ''heap-allocated''"
  shows "total ps rs ''heap-allocated'' = 0"
proof (rule total_zero)
  fix r assume "r \<in> set rs" "matches ps r"
  then have "path r \<noteq> Some ''heap-allocated''" by (rule assms)
  moreover have "dict_in ''heap-allocated'' metrics_measured"
    by (simp add: dict_in_def metrics_measured_def)
  ultimately show "map_option bucket (path r) \<noteq> Some (Some ''heap-allocated'')"
    by (auto simp: bucket_measured)
qed

lemma measures_as_map:
  "memory_measures ps rs =
   map (\<lambda>key. (replace key CHR ''-'' CHR ''_'',
          if key = ''explicit'' then
            total ps rs ''heap-allocated'' + sum_list (map (kind_amount ps 0) rs)
          else if key = ''heap-unclassified'' then
            total ps rs ''heap-allocated'' - sum_list (map (kind_amount ps 1) rs)
          else total ps rs key)) metric_keys"
  by (simp add: memory_measures_def metric_keys_eq replace_def)

lemma renamed_keys_distinct:
  "distinct (map (\<lambda>key. replace key CHR ''-'' CHR ''_'') metric_keys)"
  by (simp add: metric_keys_eq replace_def)

lemma map_of_tabulate:
  "distinct (map f ks) \<Longrightarrow> key \<in> set ks \<Longrightarrow> map_of (map (\<lambda>k. (f k, g k)) ks) (f key) = Some (g key)"
proof (induction ks)
  case Nil
  then show ?case by simp
next
  case (Cons a ks)
  show ?case
  proof (cases "key = a")
    case True
    then show ?thesis by simp
  next
    case False
    with Cons.prems have "key \<in> set ks" and "f a \<notin> f ` set ks" by auto
    then have "f key \<noteq> f a" by (metis imageI)
    with Cons \<open>key \<in> set ks\<close> show ?thesis by simp
  qed
qed

lemma measures_keys:
  "map fst (memory_measures ps rs) = map (\<lambda>key. replace key CHR ''-'' CHR ''_'') metric_keys"
  by (simp add: measures_as_map comp_def)

lemma measures_unfed:
  assumes key: "key \<in> set metric_keys"
    and unfed: "\<And>r. r \<in> set rs \<Longrightarrow> matches ps r \<Longrightarrow> \<not> feeds r key"
  shows "map_of (memory_measures ps rs) (replace key CHR ''-'' CHR ''_'') = Some 0"
proof -
  have t: "total ps rs key = 0"
    using unfed by (intro total_zero) (auto simp: feeds_def)
  have e: "total ps rs ''heap-allocated'' + sum_list (map (kind_amount ps 0) rs) = 0"
    if "key = ''explicit''"
  proof -
    have "total ps rs ''heap-allocated'' = 0"
      using unfed that by (intro heap_allocated_zero) (auto simp: feeds_def)
    moreover have "sum_list (map (kind_amount ps 0) rs) = 0"
      using unfed that by (intro kind_zero) (auto simp: feeds_def)
    ultimately show ?thesis by simp
  qed
  have h: "total ps rs ''heap-allocated'' - sum_list (map (kind_amount ps 1) rs) = 0"
    if "key = ''heap-unclassified''"
  proof -
    have "total ps rs ''heap-allocated'' = 0"
      using unfed that by (intro heap_allocated_zero) (auto simp: feeds_def)
    moreover have "sum_list (map (kind_amount ps 1) rs) = 0"
      using unfed that by (intro kind_zero) (auto simp: feeds_def)
    ultimately show ?thesis by simp
  qed
  let ?g = "\<lambda>key. if key = ''explicit'' then
            total ps rs ''heap-allocated'' + sum_list (map (kind_amount ps 0) rs)
          else if key = ''heap-unclassified'' then
            total ps rs ''heap-allocated'' - sum_list (map (kind_amount ps 1) rs)
          else total ps rs key"
  have "map_of (memory_measures ps rs) (replace key CHR ''-'' CHR ''_'') = Some (?g key)"
    unfolding measures_as_map by (rule map_of_tabulate [OF renamed_keys_distinct key])
  moreover have "?g key = 0"
    using t e h by auto
  ultimately show ?thesis by simp
qed

section \<open>The first exception of the loop\<close>

lemma first_error_None_iff:
  "first_error ps rs = None \<longleftrightarrow> (\<forall>r \<in> set rs. report_error ps r = None)"
  by (induction rs) (auto split: option.splits)

lemma first_error_Some_in:
  "first_error ps rs = Some e \<Longrightarrow> \<exists>r \<in> set rs. report_error ps r = Some e"
  by (induction rs) (auto split: option.splits)

lemma first_error_append:
  "first_error ps (xs @ ys) =
    (case first_error ps xs of Some e \<Rightarrow> Some e | None \<Rightarrow> first_error ps ys)"
  by (induction xs) (auto split: option.splits)

lemma report_error_unmatched:
  "process r \<noteq> None \<Longrightarrow> \<not> matches ps r \<Longrightarrow> report_error ps r = None"
  by (auto simp: report_error_def matches_def)

lemma report_error_matched:
  "report_error ps r = Some e \<Longrightarrow> process r \<noteq> None \<Longrightarrow> matches ps r"
  using report_error_unmatched [of r ps] by auto

lemma report_error_not_missing:
  "report_error ps r = Some e \<Longrightarrow> e \<noteq> ValueError (''no measurements found for pid '' @ x)"
  by (auto simp: report_error_def split: option.splits if_splits)

lemma first_error_filter:
  "\<forall>r \<in> set rs. process r \<noteq> None \<Longrightarrow>
   first_error ps (filter (matches ps) rs) = first_error ps rs"
  by (induction rs) (auto simp: report_error_unmatched split: option.splits)

lemma total_filter: "total ps (filter (matches ps) rs) key = total ps rs key"
  unfolding total_def by (induction rs) (auto simp: bucket_amount_def)

lemma kind_filter:
  "sum_list (map (kind_amount ps k) (filter (matches ps) rs)) = sum_list (map (kind_amount ps k) rs)"
  by (induction rs) (auto simp: kind_amount_def)

lemma measures_filter: "memory_measures ps (filter (matches ps) rs) = memory_measures ps rs"
  by (simp add: memory_measures_def total_filter kind_filter)

section \<open>Permutations, rejected reports, reports outside explicit/\<close>

lemma sum_list_map_mset:
  "mset xs = mset ys \<Longrightarrow> sum_list (map f xs) = sum_list (map (f :: 'a \<Rightarrow> int) ys)"
proof -
  assume "mset xs = mset ys"
  then have "image_mset f (mset xs) = image_mset f (mset ys)" by simp
  then have "mset (map f xs) = mset (map f ys)" by simp
  then have "sum_mset (mset (map f xs)) = sum_mset (mset (map f ys))" by (rule arg_cong)
  then show ?thesis by (simp only: sum_mset_sum_list)
qed

lemma measures_mset: "mset rs' = mset rs \<Longrightarrow> memory_measures ps rs' = memory_measures ps rs"
  by (simp add: memory_measures_def total_def sum_list_map_mset [of rs' rs])

lemma pid_str_of_7: "pid_str_of 7 = ''(pid 7)''"
  by code_simp

lemma report_error_validation:
  assumes "complete r" and "report_error ps r = Some e"
  shows "\<exists>msg. e = ValueError msg \<and>
    (startswith msg ''bad units for an explicit/ report: '' \<or>
     startswith msg ''bad kind for an explicit/ report: '')"
  using assms by (auto simp: complete_def report_error_def split: if_splits)

lemma report_error_well_formed:
  "complete r \<Longrightarrow> \<not> malformed ps r \<Longrightarrow> report_error ps r = None"
  by (auto simp: complete_def malformed_def report_error_def matches_def path_startswith_def)

lemma first_error_at:
  assumes "\<forall>q \<in> set pre. report_error ps q = None" and "report_error ps r = Some e"
  shows "first_error ps (pre @ r # post) = Some e"
  using assms by (simp add: first_error_append first_error_None_iff [THEN iffD2])

lemma get_memory_measures_raises:
  assumes "reports mr = Some rs" and "first_error (pid_str_of pid) rs = Some e"
  shows "get_memory_measures mr pid = Inl e"
  using assms by (simp add: get_memory_measures_closed)

lemma validation_fails:
  assumes rs: "reports mr = Some rs" and c: "\<forall>q \<in> set rs. complete q"
    and r: "r \<in> set rs" and e: "report_error (pid_str_of pid) r \<noteq> None"
  shows "\<exists>msg. get_memory_measures mr pid = Inl (ValueError msg) \<and>
    (startswith msg ''bad units for an explicit/ report: '' \<or>
     startswith msg ''bad kind for an explicit/ report: '')"
proof -
  from r e have "first_error (pid_str_of pid) rs \<noteq> None"
    by (auto simp: first_error_None_iff)
  then obtain x where x: "first_error (pid_str_of pid) rs = Some x" by auto
  from first_error_Some_in [OF x] obtain q where "q \<in> set rs"
    and "report_error (pid_str_of pid) q = Some x" by auto
  with c report_error_validation [of q "pid_str_of pid" x] obtain msg where "x = ValueError msg"
    and "startswith msg ''bad units for an explicit/ report: '' \<or>
     startswith msg ''bad kind for an explicit/ report: ''" by auto
  with get_memory_measures_raises [OF rs x] show ?thesis by auto
qed

lemma first_validation:
  assumes rs: "reports mr = Some (pre @ r # post)" and c: "\<forall>q \<in> set pre. complete q"
    and w: "\<forall>q \<in> set pre. \<not> malformed (pid_str_of pid) q"
    and e: "report_error (pid_str_of pid) r = Some e"
  shows "get_memory_measures mr pid = Inl e"
proof -
  from c w have "\<forall>q \<in> set pre. report_error (pid_str_of pid) q = None"
    by (simp add: report_error_well_formed)
  from first_error_at [OF this e] get_memory_measures_raises [OF rs] show ?thesis by simp
qed

lemma report_error_non_explicit:
  assumes "matches ps r" and "path r = Some p" and "\<not> startswith p ''explicit/''"
    and "kind r = Some k" and "units r = Some u" and "amount r = Some a"
  shows "report_error ps r = None"
  using assms by (auto simp: report_error_def matches_def split: option.splits)

lemma kind_amount_non_explicit:
  "path r = Some p \<Longrightarrow> \<not> startswith p ''explicit/'' \<Longrightarrow> kind_amount ps j r = 0"
  by (simp add: kind_amount_def path_startswith_def)

lemma iadd_alt:
  "(\<lambda>(key, v). (key, v + (if k = key then a else (0::int)))) =
   (\<lambda>(key, v). (key, if key = k then v + a else v))"
  by (auto simp: fun_eq_iff)

lemma process_report_non_explicit:
  assumes m: "matches ps r" and p: "path r = Some p" and n: "\<not> startswith p ''explicit/''"
    and k: "kind r = Some k" and u: "units r = Some u" and a: "amount r = Some a"
    and keys: "map fst (all_metrics s) = map fst (all_metrics initial_state)"
  shows "process_report ps r s =
    Inr (s\<lparr>pid_found := True,
           all_metrics := map (\<lambda>(key, v).
             (key, if (if startswith p ''js-main-runtime/'' then key = ''js-main-runtime''
                       else dict_in p metrics_measured \<and> key = p)
                   then v + a else v)) (all_metrics s)\<rparr>)"
proof -
  let ?s = "s\<lparr>pid_found := True\<rparr>"
  from m obtain proc where proc: "process r = Some proc" "contains proc ps"
    by (auto simp: matches_def split: option.splits)
  have keys': "map fst (all_metrics ?s) = metric_keys"
    using keys by (simp add: init_keys)
  have step: "process_report ps r s =
      (if startswith p ''js-main-runtime/'' then all_metrics_iadd ?s ''js-main-runtime'' a
       else if dict_in p metrics_measured then all_metrics_iadd ?s p a
       else Inr ?s)"
    using proc p n k u a by (simp add: process_report_def)
  show ?thesis
  proof (cases "startswith p ''js-main-runtime/''")
    case True
    have "''js-main-runtime'' \<in> set metric_keys" by (simp add: metric_keys_eq)
    from all_metrics_iadd_present [OF keys' this, of a] True show ?thesis
      unfolding step by (simp add: iadd_alt)
  next
    case js: False
    show ?thesis
    proof (cases "dict_in p metrics_measured")
      case True
      then have "p \<in> set metric_keys" by (simp add: dict_in_def metric_keys_def)
      from all_metrics_iadd_present [OF keys' this, of a] True js show ?thesis
        unfolding step by (simp add: iadd_alt)
    next
      case False
      have "map (\<lambda>(key, v). (key, v)) (all_metrics s) = all_metrics s"
        by (induction "all_metrics s") auto
      with False js show ?thesis unfolding step by (simp add: case_prod_beta)
    qed
  qed
qed

lemma retagged:
  assumes m: "matches ps r" and p: "path r = Some p" and n: "\<not> startswith p ''explicit/''"
    and k: "kind r = Some k" and u: "units r = Some u" and a: "amount r = Some a"
  shows "report_error ps (r\<lparr>kind := Some k', units := Some u'\<rparr>) = report_error ps r"
    and "matches ps (r\<lparr>kind := Some k', units := Some u'\<rparr>)"
    and "kind_amount ps j (r\<lparr>kind := Some k', units := Some u'\<rparr>) = kind_amount ps j r"
    and "bucket_amount ps key (r\<lparr>kind := Some k', units := Some u'\<rparr>) = bucket_amount ps key r"
proof -
  let ?r = "r\<lparr>kind := Some k', units := Some u'\<rparr>"
  have m': "matches ps ?r" using m by (simp add: matches_def)
  then show "matches ps ?r" .
  have "report_error ps ?r = None"
    using m' p n a by (intro report_error_non_explicit [where p = p and a = a]) auto
  with report_error_non_explicit [OF m p n k u a]
  show "report_error ps ?r = report_error ps r" by simp
  show "kind_amount ps j ?r = kind_amount ps j r"
    using p n by (simp add: kind_amount_non_explicit)
  show "bucket_amount ps key ?r = bucket_amount ps key r"
    using m m' by (auto simp: bucket_amount_def amount_of_def)
qed

lemma get_memory_measures_retagged:
  assumes m: "matches (pid_str_of pid) r" and p: "path r = Some p"
    and n: "\<not> startswith p ''explicit/''"
    and k: "kind r = Some k" and u: "units r = Some u" and a: "amount r = Some a"
    and rs: "reports mr = Some (pre @ r # post)"
  shows "get_memory_measures
      (mr\<lparr>reports := Some (pre @ r\<lparr>kind := Some k', units := Some u'\<rparr> # post)\<rparr>) pid =
    get_memory_measures mr pid"
proof -
  let ?ps = "pid_str_of pid"
  let ?r = "r\<lparr>kind := Some k', units := Some u'\<rparr>"
  note t = retagged [OF m p n k u a, where k' = k' and u' = u']
  have rs': "reports (mr\<lparr>reports := Some (pre @ ?r # post)\<rparr>) = Some (pre @ ?r # post)"
    by simp
  have e: "first_error ?ps (pre @ ?r # post) = first_error ?ps (pre @ r # post)"
    by (simp add: first_error_append t(1) cong: option.case_cong)
  have f: "(\<exists>q \<in> set (pre @ ?r # post). matches ?ps q) = (\<exists>q \<in> set (pre @ r # post). matches ?ps q)"
    using m t(2) by auto
  have v: "memory_measures ?ps (pre @ ?r # post) = memory_measures ?ps (pre @ r # post)"
    by (simp add: memory_measures_def total_def t(3,4))
  show ?thesis
    unfolding get_memory_measures_closed [OF rs'] get_memory_measures_closed [OF rs] e f v
    by (rule refl)
qed

section \<open>The exception for a missing pid\<close>

lemma report_error_None_process: "report_error ps r = None \<Longrightarrow> process r \<noteq> None"
  by (cases "process r") (simp_all add: report_error_def)

lemma not_found_characterised:
  assumes "reports mr = Some rs"
  shows "(get_memory_measures mr pid =
            Inl (ValueError (''no measurements found for pid '' @ str_int pid))) =
         (\<forall>r \<in> set rs. process r \<noteq> None \<and> \<not> matches (pid_str_of pid) r)"
proof
  let ?ps = "pid_str_of pid"
  assume nf: "get_memory_measures mr pid =
      Inl (ValueError (''no measurements found for pid '' @ str_int pid))"
  have e: "first_error ?ps rs = None"
  proof (cases "first_error ?ps rs")
    case None
    then show ?thesis .
  next
    case (Some e)
    with nf assms have "e = ValueError (''no measurements found for pid '' @ str_int pid)"
      by (simp add: get_memory_measures_closed)
    with first_error_Some_in [OF Some] report_error_not_missing show ?thesis by blast
  qed
  then have "\<forall>r \<in> set rs. process r \<noteq> None"
    using report_error_None_process by (auto simp: first_error_None_iff)
  moreover from e nf assms have "\<forall>r \<in> set rs. \<not> matches ?ps r"
    by (simp add: get_memory_measures_closed split: if_splits)
  ultimately show "\<forall>r \<in> set rs. process r \<noteq> None \<and> \<not> matches ?ps r" by simp
next
  let ?ps = "pid_str_of pid"
  assume none: "\<forall>r \<in> set rs. process r \<noteq> None \<and> \<not> matches ?ps r"
  then have "first_error ?ps rs = None"
    by (simp add: first_error_None_iff report_error_unmatched)
  with none assms show "get_memory_measures mr pid =
      Inl (ValueError (''no measurements found for pid '' @ str_int pid))"
    by (simp add: get_memory_measures_closed)
qed

lemma other_processes_skipped:
  assumes "reports mr = Some rs" and "\<forall>r \<in> set rs. process r \<noteq> None"
  shows "get_memory_measures (mr\<lparr>reports := Some (filter (matches (pid_str_of pid)) rs)\<rparr>) pid =
      get_memory_measures mr pid"
proof -
  let ?ps = "pid_str_of pid"
  have fr: "reports (mr\<lparr>reports := Some (filter (matches ?ps) rs)\<rparr>) =
      Some (filter (matches ?ps) rs)"
    by simp
  have ex: "(\<exists>r \<in> set (filter (matches ?ps) rs). matches ?ps r) = (\<exists>r \<in> set rs. matches ?ps r)"
    by auto
  show ?thesis
    unfolding get_memory_measures_closed [OF fr] get_memory_measures_closed [OF assms(1)]
      first_error_filter [OF assms(2)] measures_filter ex
    by (rule refl)
qed

lemma pid_str_of_marker: "pid_str_of pid = ''(pid '' @ str_int pid @ '')''"
  by (simp add: pid_str_of_def)

section \<open>The claims\<close>

subsection \<open>C1: the three rules for a path under explicit/\<close>

text \<open>
  C1 as stated (each of the three rules applies independently, so one report can add to
  several of \<^verbatim>\<open>images\<close>, \<^verbatim>\<open>top-none-detached\<close> and \<^verbatim>\<open>heap-overhead\<close>) fails: the report
  below is under \<^verbatim>\<open>explicit/images/\<close> and contains \<^verbatim>\<open>top(none)/detached\<close>, and its amount 5
  reaches \<^verbatim>\<open>images\<close> only.
\<close>

theorem explicit_rules_exclusive_counterexample:
  "startswith ''explicit/images/top(none)/detached'' ''explicit/'' \<and>
   contains ''explicit/images/top(none)/detached'' ''top(none)/detached'' \<and>
   get_memory_measures
     \<lparr>version = Some 1,
      reports = Some [\<lparr>process = Some ''Main Process (pid 7)'',
        path = Some ''explicit/images/top(none)/detached'', kind = Some 1, units = Some 0,
        amount = Some 5\<rparr>],
      hasMozMallocUsableSize = Some True\<rparr> 7 =
   Inr [(''gfx_textures'', 0), (''ghost_windows'', 0), (''heap_allocated'', 0),
      (''host_object_urls'', 0), (''private'', 0), (''resident'', 0),
      (''resident_unique'', 0), (''system_heap_allocated'', 0),
      (''vsize_max_contiguous'', 0), (''vsize'', 0), (''explicit'', 0),
      (''heap_overhead'', 0), (''heap_unclassified'', - 5), (''images'', 5),
      (''js_main_runtime'', 0), (''top_none_detached'', 0)]"
  by code_simp

text \<open>
  C1, amended: the three rules form one \<^verbatim>\<open>if/elif/elif\<close> chain, so a report adds to the
  first bucket whose rule holds and to no other. On every successful extraction
  \<^verbatim>\<open>images\<close> is the sum of the amounts of the process's reports under
  \<^verbatim>\<open>explicit/images/\<close>; \<^verbatim>\<open>top_none_detached\<close> is the sum over its reports under
  \<^verbatim>\<open>explicit/\<close> that are not under \<^verbatim>\<open>explicit/images/\<close> and contain \<^verbatim>\<open>top(none)/detached\<close>;
  \<^verbatim>\<open>heap_overhead\<close> is the sum over its reports under \<^verbatim>\<open>explicit/heap-overhead/\<close> that
  do not contain \<^verbatim>\<open>top(none)/detached\<close>.
\<close>

theorem explicit_rules_first_match:
  assumes "reports mr = Some rs" and "get_memory_measures mr pid = Inr m"
  shows "map_of m ''images'' =
      Some (sum_amounts (\<lambda>r. matches (pid_str_of pid) r \<and>
              path_startswith ''explicit/images/'' r) rs) \<and>
    map_of m ''top_none_detached'' =
      Some (sum_amounts (\<lambda>r. matches (pid_str_of pid) r \<and>
              path_startswith ''explicit/'' r \<and>
              \<not> path_startswith ''explicit/images/'' r \<and>
              path_contains ''top(none)/detached'' r) rs) \<and>
    map_of m ''heap_overhead'' =
      Some (sum_amounts (\<lambda>r. matches (pid_str_of pid) r \<and>
              path_startswith ''explicit/heap-overhead/'' r \<and>
              \<not> path_contains ''top(none)/detached'' r) rs)"
proof -
  let ?ps = "pid_str_of pid"
  have m: "m = memory_measures ?ps rs"
    using assms by (rule get_memory_measures_Inr)
  have "total ?ps rs ''images'' =
      sum_amounts (\<lambda>r. matches ?ps r \<and> path_startswith ''explicit/images/'' r) rs"
    unfolding total_sum_amounts
    by (rule sum_amounts_cong)
      (auto simp: path_startswith_def bucket_images split: option.splits)
  moreover have "total ?ps rs ''top-none-detached'' =
      sum_amounts (\<lambda>r. matches ?ps r \<and> path_startswith ''explicit/'' r \<and>
        \<not> path_startswith ''explicit/images/'' r \<and> path_contains ''top(none)/detached'' r) rs"
    unfolding total_sum_amounts
    by (rule sum_amounts_cong)
      (auto simp: path_startswith_def path_contains_def bucket_detached split: option.splits)
  moreover have "total ?ps rs ''heap-overhead'' =
      sum_amounts (\<lambda>r. matches ?ps r \<and> path_startswith ''explicit/heap-overhead/'' r \<and>
        \<not> path_contains ''top(none)/detached'' r) rs"
    unfolding total_sum_amounts
    by (rule sum_amounts_cong)
      (auto simp: path_startswith_def path_contains_def bucket_overhead split: option.splits)
  ultimately show ?thesis by (simp add: m map_of_measures)
qed

theorem explicit_rules_first_match_witness:
  "map_of
     [(''gfx_textures'', 0), (''ghost_windows'', 0), (''heap_allocated'', 0),
      (''host_object_urls'', 0), (''private'', 0), (''resident'', 0),
      (''resident_unique'', 0), (''system_heap_allocated'', 0),
      (''vsize_max_contiguous'', 0), (''vsize'', 0), (''explicit'', 4),
      (''heap_overhead'', 4), (''heap_unclassified'', - 5), (''images'', 5),
      (''js_main_runtime'', 0), (''top_none_detached'', 0)] ''heap_overhead'' =
   Some (sum_amounts (\<lambda>r. matches (pid_str_of 7) r \<and>
              path_startswith ''explicit/heap-overhead/'' r \<and>
              \<not> path_contains ''top(none)/detached'' r)
     [\<lparr>process = Some ''Main Process (pid 7)'',
        path = Some ''explicit/images/top(none)/detached'', kind = Some 1, units = Some 0,
        amount = Some 5\<rparr>,
      \<lparr>process = Some ''Main Process (pid 7)'',
        path = Some ''explicit/heap-overhead/page-cache'', kind = Some 0, units = Some 0,
        amount = Some 4\<rparr>,
      \<lparr>process = Some ''Web Content (pid 8)'',
        path = Some ''explicit/heap-overhead/page-cache'', kind = Some 0, units = Some 0,
        amount = Some 16\<rparr>])"
proof -
  let ?rs = "[\<lparr>process = Some ''Main Process (pid 7)'',
        path = Some ''explicit/images/top(none)/detached'', kind = Some 1, units = Some 0,
        amount = Some 5\<rparr>,
      \<lparr>process = Some ''Main Process (pid 7)'',
        path = Some ''explicit/heap-overhead/page-cache'', kind = Some 0, units = Some 0,
        amount = Some 4\<rparr>,
      \<lparr>process = Some ''Web Content (pid 8)'',
        path = Some ''explicit/heap-overhead/page-cache'', kind = Some 0, units = Some 0,
        amount = Some 16\<rparr>]"
  let ?mr = "\<lparr>version = Some 1, reports = Some ?rs, hasMozMallocUsableSize = Some True\<rparr>"
  have r: "reports ?mr = Some ?rs" by simp
  have g: "get_memory_measures ?mr 7 = Inr
     [(''gfx_textures'', 0), (''ghost_windows'', 0), (''heap_allocated'', 0),
      (''host_object_urls'', 0), (''private'', 0), (''resident'', 0),
      (''resident_unique'', 0), (''system_heap_allocated'', 0),
      (''vsize_max_contiguous'', 0), (''vsize'', 0), (''explicit'', 4),
      (''heap_overhead'', 4), (''heap_unclassified'', - 5), (''images'', 5),
      (''js_main_runtime'', 0), (''top_none_detached'', 0)]"
    by code_simp
  from explicit_rules_first_match [OF r g] show ?thesis by blast
qed

subsection \<open>C2: the two derived values\<close>

text \<open>
  C2: on every successful extraction \<^verbatim>\<open>heap_allocated\<close> is the sum of the amounts of the
  process's reports whose path is \<^verbatim>\<open>heap-allocated\<close>; \<^verbatim>\<open>heap_unclassified\<close> is that sum
  minus the amounts of its \<^verbatim>\<open>explicit/\<close> reports of kind heap, and \<^verbatim>\<open>explicit\<close> is that sum
  plus the amounts of its \<^verbatim>\<open>explicit/\<close> reports of kind non-heap. The values are integers
  and nothing clamps them: a negative \<^verbatim>\<open>heap_unclassified\<close> is returned as it is, as in
  the witness, where it is \<open>10 - 25\<close>.
\<close>

theorem derived_values:
  assumes "reports mr = Some rs" and "get_memory_measures mr pid = Inr m"
  shows "map_of m ''heap_allocated'' =
      Some (sum_amounts (\<lambda>r. matches (pid_str_of pid) r \<and>
              path r = Some ''heap-allocated'') rs) \<and>
    map_of m ''heap_unclassified'' =
      Some (sum_amounts (\<lambda>r. matches (pid_str_of pid) r \<and>
              path r = Some ''heap-allocated'') rs -
            sum_amounts (\<lambda>r. matches (pid_str_of pid) r \<and>
              path_startswith ''explicit/'' r \<and> kind r = Some KIND_HEAP) rs) \<and>
    map_of m ''explicit'' =
      Some (sum_amounts (\<lambda>r. matches (pid_str_of pid) r \<and>
              path r = Some ''heap-allocated'') rs +
            sum_amounts (\<lambda>r. matches (pid_str_of pid) r \<and>
              path_startswith ''explicit/'' r \<and> kind r = Some KIND_NONHEAP) rs)"
proof -
  let ?ps = "pid_str_of pid"
  have m: "m = memory_measures ?ps rs"
    using assms by (rule get_memory_measures_Inr)
  have "dict_in ''heap-allocated'' metrics_measured"
    by (simp add: dict_in_def metrics_measured_def)
  then have "total ?ps rs ''heap-allocated'' =
      sum_amounts (\<lambda>r. matches ?ps r \<and> path r = Some ''heap-allocated'') rs"
    unfolding total_sum_amounts
    by (intro sum_amounts_cong) (auto simp: bucket_measured)
  then show ?thesis by (simp add: m map_of_measures kind_sum_amounts)
qed

theorem derived_values_witness:
  "map_of
     [(''gfx_textures'', 0), (''ghost_windows'', 0), (''heap_allocated'', 10),
      (''host_object_urls'', 0), (''private'', 0), (''resident'', 0),
      (''resident_unique'', 0), (''system_heap_allocated'', 0),
      (''vsize_max_contiguous'', 0), (''vsize'', 0), (''explicit'', 13),
      (''heap_overhead'', 0), (''heap_unclassified'', - 15), (''images'', 0),
      (''js_main_runtime'', 0), (''top_none_detached'', 0)] ''heap_unclassified'' =
   Some (sum_amounts (\<lambda>r. matches (pid_str_of 7) r \<and> path r = Some ''heap-allocated'')
     [\<lparr>process = Some ''Main Process (pid 7)'', path = Some ''heap-allocated'',
        kind = Some 2, units = Some 0, amount = Some 10\<rparr>,
      \<lparr>process = Some ''Main Process (pid 7)'', path = Some ''explicit/dom/window'',
        kind = Some 1, units = Some 0, amount = Some 25\<rparr>,
      \<lparr>process = Some ''Main Process (pid 7)'', path = Some ''explicit/gfx/mapped'',
        kind = Some 0, units = Some 0, amount = Some 3\<rparr>] -
    sum_amounts (\<lambda>r. matches (pid_str_of 7) r \<and>
        path_startswith ''explicit/'' r \<and> kind r = Some KIND_HEAP)
     [\<lparr>process = Some ''Main Process (pid 7)'', path = Some ''heap-allocated'',
        kind = Some 2, units = Some 0, amount = Some 10\<rparr>,
      \<lparr>process = Some ''Main Process (pid 7)'', path = Some ''explicit/dom/window'',
        kind = Some 1, units = Some 0, amount = Some 25\<rparr>,
      \<lparr>process = Some ''Main Process (pid 7)'', path = Some ''explicit/gfx/mapped'',
        kind = Some 0, units = Some 0, amount = Some 3\<rparr>])"
proof -
  let ?rs = "[\<lparr>process = Some ''Main Process (pid 7)'', path = Some ''heap-allocated'',
        kind = Some 2, units = Some 0, amount = Some 10\<rparr>,
      \<lparr>process = Some ''Main Process (pid 7)'', path = Some ''explicit/dom/window'',
        kind = Some 1, units = Some 0, amount = Some 25\<rparr>,
      \<lparr>process = Some ''Main Process (pid 7)'', path = Some ''explicit/gfx/mapped'',
        kind = Some 0, units = Some 0, amount = Some 3\<rparr>]"
  let ?mr = "\<lparr>version = Some 1, reports = Some ?rs, hasMozMallocUsableSize = Some True\<rparr>"
  have r: "reports ?mr = Some ?rs" by simp
  have g: "get_memory_measures ?mr 7 = Inr
     [(''gfx_textures'', 0), (''ghost_windows'', 0), (''heap_allocated'', 10),
      (''host_object_urls'', 0), (''private'', 0), (''resident'', 0),
      (''resident_unique'', 0), (''system_heap_allocated'', 0),
      (''vsize_max_contiguous'', 0), (''vsize'', 0), (''explicit'', 13),
      (''heap_overhead'', 0), (''heap_unclassified'', - 15), (''images'', 0),
      (''js_main_runtime'', 0), (''top_none_detached'', 0)]"
    by code_simp
  from derived_values [OF r g] show ?thesis by blast
qed

subsection \<open>C3: the keys of the result\<close>

text \<open>
  C3: on every successful extraction the keys of the returned dict are the ten keys of
  \<^verbatim>\<open>metrics_measured\<close> followed by the six keys of \<^verbatim>\<open>metrics_derived\<close>, each with its
  dashes replaced by underscores: sixteen distinct keys, whatever the reports are. A key
  that no report of the process feeds has the value 0.
\<close>

theorem fixed_key_set:
  assumes "reports mr = Some rs" and "get_memory_measures mr pid = Inr m"
  shows "map fst m =
      map (\<lambda>key. replace key CHR ''-'' CHR ''_'')
        (map fst metrics_measured @ map fst metrics_derived) \<and>
    distinct (map fst m) \<and> length m = 16 \<and>
    (\<forall>key \<in> set (map fst metrics_measured @ map fst metrics_derived).
       (\<forall>r \<in> set rs. matches (pid_str_of pid) r \<longrightarrow> \<not> feeds r key) \<longrightarrow>
       map_of m (replace key CHR ''-'' CHR ''_'') = Some 0)"
proof -
  have m: "m = memory_measures (pid_str_of pid) rs"
    using assms by (rule get_memory_measures_Inr)
  have k: "map fst m = map (\<lambda>key. replace key CHR ''-'' CHR ''_'') metric_keys"
    unfolding m by (rule measures_keys)
  have d: "distinct (map fst m)"
    unfolding k by (rule renamed_keys_distinct)
  have l: "length m = 16"
    using arg_cong [OF k, of length] by (simp add: metric_keys_eq)
  have z: "\<forall>key \<in> set metric_keys.
       (\<forall>r \<in> set rs. matches (pid_str_of pid) r \<longrightarrow> \<not> feeds r key) \<longrightarrow>
       map_of m (replace key CHR ''-'' CHR ''_'') = Some 0"
    unfolding m using measures_unfed [of _ rs "pid_str_of pid"] by blast
  from k d l z show ?thesis unfolding metric_keys_def by blast
qed

theorem fixed_key_set_witness:
  "map fst
     [(''gfx_textures'', 0), (''ghost_windows'', 0), (''heap_allocated'', 0),
      (''host_object_urls'', 0), (''private'', 0), (''resident'', 0),
      (''resident_unique'', 0), (''system_heap_allocated'', 0),
      (''vsize_max_contiguous'', 0), (''vsize'', 0), (''explicit'', 6),
      (''heap_overhead'', 0), (''heap_unclassified'', 0 :: int), (''images'', 0),
      (''js_main_runtime'', 0), (''top_none_detached'', 6)] =
   map (\<lambda>key. replace key CHR ''-'' CHR ''_'')
     (map fst metrics_measured @ map fst metrics_derived) \<and>
   map_of
     [(''gfx_textures'', 0), (''ghost_windows'', 0), (''heap_allocated'', 0),
      (''host_object_urls'', 0), (''private'', 0), (''resident'', 0),
      (''resident_unique'', 0), (''system_heap_allocated'', 0),
      (''vsize_max_contiguous'', 0), (''vsize'', 0), (''explicit'', 6),
      (''heap_overhead'', 0), (''heap_unclassified'', 0 :: int), (''images'', 0),
      (''js_main_runtime'', 0), (''top_none_detached'', 6)]
     (replace ''heap-unclassified'' CHR ''-'' CHR ''_'') = Some 0"
proof -
  let ?rs = "[\<lparr>process = Some ''Main Process (pid 7)'',
        path = Some ''explicit/dom/top(none)/detached'',
        kind = Some 0, units = Some 0, amount = Some 6\<rparr>]"
  let ?mr = "\<lparr>version = Some 1, reports = Some ?rs, hasMozMallocUsableSize = Some False\<rparr>"
  have r: "reports ?mr = Some ?rs" by simp
  have g: "get_memory_measures ?mr 7 = Inr
     [(''gfx_textures'', 0), (''ghost_windows'', 0), (''heap_allocated'', 0),
      (''host_object_urls'', 0), (''private'', 0), (''resident'', 0),
      (''resident_unique'', 0), (''system_heap_allocated'', 0),
      (''vsize_max_contiguous'', 0), (''vsize'', 0), (''explicit'', 6),
      (''heap_overhead'', 0), (''heap_unclassified'', 0), (''images'', 0),
      (''js_main_runtime'', 0), (''top_none_detached'', 6)]"
    by code_simp
  have k: "''heap-unclassified'' \<in> set (map fst metrics_measured @ map fst metrics_derived)"
    by (simp add: metrics_derived_def)
  have u: "\<forall>r \<in> set ?rs. matches (pid_str_of 7) r \<longrightarrow> \<not> feeds r ''heap-unclassified''"
    by code_simp
  note t = fixed_key_set [OF r g]
  from t have a: "map fst
     [(''gfx_textures'', 0), (''ghost_windows'', 0), (''heap_allocated'', 0),
      (''host_object_urls'', 0), (''private'', 0), (''resident'', 0),
      (''resident_unique'', 0), (''system_heap_allocated'', 0),
      (''vsize_max_contiguous'', 0), (''vsize'', 0), (''explicit'', 6),
      (''heap_overhead'', 0), (''heap_unclassified'', 0 :: int), (''images'', 0),
      (''js_main_runtime'', 0), (''top_none_detached'', 6)] =
   map (\<lambda>key. replace key CHR ''-'' CHR ''_'')
     (map fst metrics_measured @ map fst metrics_derived)"
    by (rule conjunct1)
  note z = t [THEN conjunct2, THEN conjunct2, THEN conjunct2]
  from a mp [OF bspec [OF z k] u] show ?thesis by (rule conjI)
qed

subsection \<open>C4: no report of the process\<close>

text \<open>
  C4 as stated (the exception for the missing pid is raised if and only if no report has a
  process entry that contains the marker) fails on a report without a \<^verbatim>\<open>process\<close> key: no
  report has a process entry at all, and line 97 raises \<^verbatim>\<open>KeyError\<close>, which the caller logs
  as a key missing from a report, not the exception for the missing pid.
\<close>

theorem not_found_missing_process_counterexample:
  "process \<lparr>process = None, path = Some ''resident'', kind = Some 0, units = Some 0,
      amount = Some 1000\<rparr> = None \<and>
   get_memory_measures
     \<lparr>version = Some 1,
      reports = Some [\<lparr>process = None, path = Some ''resident'', kind = Some 0,
        units = Some 0, amount = Some 1000\<rparr>],
      hasMozMallocUsableSize = Some True\<rparr> 7 = Inl (KeyError ''process'') \<and>
   get_memory_measures
     \<lparr>version = Some 1,
      reports = Some [\<lparr>process = None, path = Some ''resident'', kind = Some 0,
        units = Some 0, amount = Some 1000\<rparr>],
      hasMozMallocUsableSize = Some True\<rparr> 7 \<noteq>
     Inl (ValueError ''no measurements found for pid 7'')"
  by code_simp

text \<open>
  C4, amended: the extraction raises \<^verbatim>\<open>ValueError("no measurements found for pid N")\<close> if
  and only if every report has a \<^verbatim>\<open>process\<close> entry and none of these entries contains the
  marker, the text \<^verbatim>\<open>(pid \<close> followed by the decimal form of N and \<^verbatim>\<open>)\<close>. When every report
  has a \<^verbatim>\<open>process\<close> entry, the reports of other processes are skipped: the outcome is the
  one of the list with those reports removed, so they cause no such error when another
  report matches.
\<close>

theorem not_found_iff_no_match:
  assumes "reports mr = Some rs"
  shows "(get_memory_measures mr pid =
            Inl (ValueError (''no measurements found for pid '' @ str_int pid))) =
         (\<forall>r \<in> set rs. process r \<noteq> None \<and>
            \<not> matches (''(pid '' @ str_int pid @ '')'') r) \<and>
     ((\<forall>r \<in> set rs. process r \<noteq> None) \<longrightarrow>
        get_memory_measures
          (mr\<lparr>reports := Some (filter (matches (''(pid '' @ str_int pid @ '')'')) rs)\<rparr>) pid =
        get_memory_measures mr pid)"
  unfolding pid_str_of_marker [symmetric]
  using not_found_characterised [OF assms, of pid] other_processes_skipped [OF assms, of pid]
  by blast

theorem not_found_iff_no_match_witness:
  "get_memory_measures
     \<lparr>version = Some 1,
      reports = Some
        [\<lparr>process = Some ''Main Process (pid 7)'', path = Some ''resident'',
           kind = Some 0, units = Some 0, amount = Some 1000\<rparr>],
      hasMozMallocUsableSize = Some True\<rparr> 8 =
     Inl (ValueError ''no measurements found for pid 8'') \<and>
   get_memory_measures
     \<lparr>version = Some 1,
      reports = Some
        [\<lparr>process = Some ''Main Process (pid 7)'', path = Some ''resident'',
           kind = Some 0, units = Some 0, amount = Some 1000\<rparr>,
         \<lparr>process = Some ''Web Content (pid 8)'', path = Some ''resident'',
           kind = Some 0, units = Some 0, amount = Some 2000\<rparr>],
      hasMozMallocUsableSize = Some True\<rparr> 8 \<noteq>
     Inl (ValueError ''no measurements found for pid 8'')"
proof -
  let ?a = "\<lparr>process = Some ''Main Process (pid 7)'', path = Some ''resident'',
           kind = Some 0, units = Some 0, amount = Some 1000\<rparr>"
  let ?b = "\<lparr>process = Some ''Web Content (pid 8)'', path = Some ''resident'',
           kind = Some 0, units = Some 0, amount = Some 2000\<rparr>"
  let ?mr = "\<lparr>version = Some 1, reports = Some [?a], hasMozMallocUsableSize = Some True\<rparr>"
  let ?mr' = "\<lparr>version = Some 1, reports = Some [?a, ?b], hasMozMallocUsableSize = Some True\<rparr>"
  have s: "''no measurements found for pid '' @ str_int 8 = ''no measurements found for pid 8''"
    by code_simp
  have r: "reports ?mr = Some [?a]" by simp
  have r': "reports ?mr' = Some [?a, ?b]" by simp
  have n: "\<forall>r \<in> set [?a]. process r \<noteq> None \<and> \<not> matches (''(pid '' @ str_int 8 @ '')'') r"
    by code_simp
  have m: "\<not> (\<forall>r \<in> set [?a, ?b]. process r \<noteq> None \<and>
      \<not> matches (''(pid '' @ str_int 8 @ '')'') r)"
    by code_simp
  from not_found_iff_no_match [OF r, of 8] n
  have "get_memory_measures ?mr 8 =
      Inl (ValueError (''no measurements found for pid '' @ str_int 8))" by blast
  moreover from not_found_iff_no_match [OF r', of 8] m
  have "get_memory_measures ?mr' 8 \<noteq>
      Inl (ValueError (''no measurements found for pid '' @ str_int 8))" by blast
  ultimately show ?thesis unfolding s by (rule conjI)
qed

subsection \<open>C5: units of a report under explicit/\<close>

text \<open>
  C5 as stated (the exception names the path and units of any such report in the list)
  fails when an earlier report is rejected first: both reports below are under
  \<^verbatim>\<open>explicit/\<close> with units that are not bytes, and the exception names the first one,
  not \<^verbatim>\<open>explicit/b\<close> with units 2.
\<close>

theorem bad_units_later_counterexample:
  "get_memory_measures
     \<lparr>version = Some 1,
      reports = Some
        [\<lparr>process = Some ''Main Process (pid 7)'', path = Some ''explicit/a'',
           kind = Some 0, units = Some 1, amount = Some 5\<rparr>,
         \<lparr>process = Some ''Main Process (pid 7)'', path = Some ''explicit/b'',
           kind = Some 0, units = Some 2, amount = Some 5\<rparr>],
      hasMozMallocUsableSize = Some True\<rparr> 7 =
     Inl (ValueError ''bad units for an explicit/ report: explicit/a, 1'') \<and>
   get_memory_measures
     \<lparr>version = Some 1,
      reports = Some
        [\<lparr>process = Some ''Main Process (pid 7)'', path = Some ''explicit/a'',
           kind = Some 0, units = Some 1, amount = Some 5\<rparr>,
         \<lparr>process = Some ''Main Process (pid 7)'', path = Some ''explicit/b'',
           kind = Some 0, units = Some 2, amount = Some 5\<rparr>],
      hasMozMallocUsableSize = Some True\<rparr> 7 \<noteq>
     Inl (ValueError (''bad units for an explicit/ report: '' @ ''explicit/b'' @ '', '' @ str_int 2))"
  by code_simp

text \<open>
  C5, amended: when the list holds a report of the process under \<^verbatim>\<open>explicit/\<close> whose
  units are not bytes (all reports carrying their five entries), the extraction raises a
  \<^verbatim>\<open>ValueError\<close> for bad units or bad kind and returns no dict; the loop stops at the first
  rejected report, so the exception names this report's path and units when no report
  before it in the list is rejected.
\<close>

theorem bad_units_rejected:
  assumes "reports mr = Some rs" and "\<forall>q \<in> set rs. complete q"
    and "r \<in> set rs" and "matches (pid_str_of pid) r"
    and "path r = Some p" and "startswith p ''explicit/''"
    and "units r = Some u" and "u \<noteq> UNITS_BYTES"
  shows "(\<exists>msg. get_memory_measures mr pid = Inl (ValueError msg) \<and>
       (startswith msg ''bad units for an explicit/ report: '' \<or>
        startswith msg ''bad kind for an explicit/ report: '')) \<and>
     (\<forall>pre post. rs = pre @ r # post \<and> (\<forall>q \<in> set pre. \<not> malformed (pid_str_of pid) q) \<longrightarrow>
        get_memory_measures mr pid =
          Inl (ValueError (''bad units for an explicit/ report: '' @ p @ '', '' @ str_int u)))"
proof -
  from assms(2,3) have "complete r" by simp
  with assms(4-8) have e: "report_error (pid_str_of pid) r =
      Some (ValueError (''bad units for an explicit/ report: '' @ p @ '', '' @ str_int u))"
    by (auto simp: complete_def report_error_def matches_def split: option.splits)
  then have "report_error (pid_str_of pid) r \<noteq> None" by simp
  from validation_fails [OF assms(1,2,3) this] first_validation [OF _ _ _ e, of mr] assms(1,2)
  show ?thesis by auto
qed

theorem bad_units_rejected_witness:
  "get_memory_measures
     \<lparr>version = Some 1,
      reports = Some
        [\<lparr>process = Some ''Main Process (pid 7)'', path = Some ''resident'',
           kind = Some 0, units = Some 0, amount = Some 1000\<rparr>,
         \<lparr>process = Some ''Main Process (pid 7)'', path = Some ''explicit/foo'',
           kind = Some 0, units = Some 1, amount = Some 5\<rparr>],
      hasMozMallocUsableSize = Some True\<rparr> 7 =
   Inl (ValueError (''bad units for an explicit/ report: '' @ ''explicit/foo'' @ '', '' @ str_int 1))"
proof -
  let ?a = "\<lparr>process = Some ''Main Process (pid 7)'', path = Some ''resident'',
           kind = Some 0, units = Some 0, amount = Some 1000\<rparr>"
  let ?b = "\<lparr>process = Some ''Main Process (pid 7)'', path = Some ''explicit/foo'',
           kind = Some 0, units = Some 1, amount = Some 5\<rparr>"
  let ?mr = "\<lparr>version = Some 1, reports = Some [?a, ?b], hasMozMallocUsableSize = Some True\<rparr>"
  have r: "reports ?mr = Some [?a, ?b]" by simp
  have c: "\<forall>q \<in> set [?a, ?b]. complete q" by (simp add: complete_def)
  have i: "?b \<in> set [?a, ?b]" by simp
  have m: "matches (pid_str_of 7) ?b" by code_simp
  have p: "path ?b = Some ''explicit/foo''" by simp
  have s: "startswith ''explicit/foo'' ''explicit/''" by simp
  have u: "units ?b = Some 1" by simp
  have n: "(1 :: int) \<noteq> UNITS_BYTES" by simp
  have h: "[?a, ?b] = [?a] @ ?b # [] \<and> (\<forall>q \<in> set [?a]. \<not> malformed (pid_str_of 7) q)"
    by code_simp
  note t = bad_units_rejected [OF r c i m p s u n, THEN conjunct2]
  from t h show ?thesis by blast
qed

subsection \<open>C6: kind of a report under explicit/\<close>

text \<open>
  C6 as stated (the exception names the path and kind of any such report in the list)
  fails when an earlier report is rejected first: the second report below has units
  bytes and kind 2, and the exception is the one for the units of the first report.
\<close>

theorem bad_kind_later_counterexample:
  "get_memory_measures
     \<lparr>version = Some 1,
      reports = Some
        [\<lparr>process = Some ''Main Process (pid 7)'', path = Some ''explicit/a'',
           kind = Some 0, units = Some 1, amount = Some 5\<rparr>,
         \<lparr>process = Some ''Main Process (pid 7)'', path = Some ''explicit/b'',
           kind = Some 2, units = Some 0, amount = Some 5\<rparr>],
      hasMozMallocUsableSize = Some True\<rparr> 7 =
     Inl (ValueError ''bad units for an explicit/ report: explicit/a, 1'') \<and>
   get_memory_measures
     \<lparr>version = Some 1,
      reports = Some
        [\<lparr>process = Some ''Main Process (pid 7)'', path = Some ''explicit/a'',
           kind = Some 0, units = Some 1, amount = Some 5\<rparr>,
         \<lparr>process = Some ''Main Process (pid 7)'', path = Some ''explicit/b'',
           kind = Some 2, units = Some 0, amount = Some 5\<rparr>],
      hasMozMallocUsableSize = Some True\<rparr> 7 \<noteq>
     Inl (ValueError (''bad kind for an explicit/ report: '' @ ''explicit/b'' @ '', '' @ str_int 2))"
  by code_simp

text \<open>
  C6, amended: when the list holds a report of the process under \<^verbatim>\<open>explicit/\<close> whose
  units are bytes and whose kind is neither heap nor non-heap (all reports carrying their
  five entries), the extraction raises a \<^verbatim>\<open>ValueError\<close> for bad units or bad kind and
  returns no dict; the exception names this report's path and kind when no report before
  it in the list is rejected.
\<close>

theorem bad_kind_rejected:
  assumes "reports mr = Some rs" and "\<forall>q \<in> set rs. complete q"
    and "r \<in> set rs" and "matches (pid_str_of pid) r"
    and "path r = Some p" and "startswith p ''explicit/''"
    and "units r = Some UNITS_BYTES"
    and "kind r = Some k" and "k \<noteq> KIND_HEAP" and "k \<noteq> KIND_NONHEAP"
  shows "(\<exists>msg. get_memory_measures mr pid = Inl (ValueError msg) \<and>
       (startswith msg ''bad units for an explicit/ report: '' \<or>
        startswith msg ''bad kind for an explicit/ report: '')) \<and>
     (\<forall>pre post. rs = pre @ r # post \<and> (\<forall>q \<in> set pre. \<not> malformed (pid_str_of pid) q) \<longrightarrow>
        get_memory_measures mr pid =
          Inl (ValueError (''bad kind for an explicit/ report: '' @ p @ '', '' @ str_int k)))"
proof -
  from assms(2,3) have "complete r" by simp
  with assms(4-10) have e: "report_error (pid_str_of pid) r =
      Some (ValueError (''bad kind for an explicit/ report: '' @ p @ '', '' @ str_int k))"
    by (auto simp: complete_def report_error_def matches_def split: option.splits)
  then have "report_error (pid_str_of pid) r \<noteq> None" by simp
  from validation_fails [OF assms(1,2,3) this] first_validation [OF _ _ _ e, of mr] assms(1,2)
  show ?thesis by auto
qed

theorem bad_kind_rejected_witness:
  "get_memory_measures
     \<lparr>version = Some 1,
      reports = Some
        [\<lparr>process = Some ''Main Process (pid 7)'', path = Some ''resident'',
           kind = Some 0, units = Some 0, amount = Some 1000\<rparr>,
         \<lparr>process = Some ''Main Process (pid 7)'', path = Some ''explicit/foo'',
           kind = Some 2, units = Some 0, amount = Some 5\<rparr>],
      hasMozMallocUsableSize = Some True\<rparr> 7 =
   Inl (ValueError (''bad kind for an explicit/ report: '' @ ''explicit/foo'' @ '', '' @ str_int 2))"
proof -
  let ?a = "\<lparr>process = Some ''Main Process (pid 7)'', path = Some ''resident'',
           kind = Some 0, units = Some 0, amount = Some 1000\<rparr>"
  let ?b = "\<lparr>process = Some ''Main Process (pid 7)'', path = Some ''explicit/foo'',
           kind = Some 2, units = Some 0, amount = Some 5\<rparr>"
  let ?mr = "\<lparr>version = Some 1, reports = Some [?a, ?b], hasMozMallocUsableSize = Some True\<rparr>"
  have r: "reports ?mr = Some [?a, ?b]" by simp
  have c: "\<forall>q \<in> set [?a, ?b]. complete q" by (simp add: complete_def)
  have i: "?b \<in> set [?a, ?b]" by simp
  have m: "matches (pid_str_of 7) ?b" by code_simp
  have p: "path ?b = Some ''explicit/foo''" by simp
  have s: "startswith ''explicit/foo'' ''explicit/''" by simp
  have u: "units ?b = Some UNITS_BYTES" by simp
  have k: "kind ?b = Some 2" by simp
  have n1: "(2 :: int) \<noteq> KIND_HEAP" by simp
  have n0: "(2 :: int) \<noteq> KIND_NONHEAP" by simp
  have h: "[?a, ?b] = [?a] @ ?b # [] \<and> (\<forall>q \<in> set [?a]. \<not> malformed (pid_str_of 7) q)"
    by code_simp
  note t = bad_kind_rejected [OF r c i m p s u k n1 n0, THEN conjunct2]
  from t h show ?thesis by blast
qed

subsection \<open>C7: the order of the reports\<close>

text \<open>
  C7: when the extraction succeeds on a list of reports, it succeeds on every permutation
  of the list and returns the same dict.
\<close>

theorem permuted_reports:
  assumes "reports mr = Some rs" and "reports mr' = Some rs'" and "mset rs' = mset rs"
    and "get_memory_measures mr pid = Inr m"
  shows "get_memory_measures mr' pid = Inr m"
proof -
  let ?ps = "pid_str_of pid"
  from assms(3) have s: "set rs' = set rs" by (rule mset_eq_setD)
  from assms(1,4) have m: "m = memory_measures ?ps rs" and e: "first_error ?ps rs = None"
    and f: "\<exists>r \<in> set rs. matches ?ps r"
    by (rule get_memory_measures_Inr)+
  from e s have "first_error ?ps rs' = None" by (simp add: first_error_None_iff)
  moreover from f s have "\<exists>r \<in> set rs'. matches ?ps r" by simp
  ultimately show ?thesis
    using assms(2) by (simp add: get_memory_measures_closed measures_mset [OF assms(3)] m)
qed

theorem permuted_reports_witness:
  "get_memory_measures
     \<lparr>version = Some 1,
      reports = Some
        [\<lparr>process = Some ''Main Process (pid 7)'', path = Some ''explicit/images/a'',
           kind = Some 1, units = Some 0, amount = Some 4\<rparr>,
         \<lparr>process = Some ''Main Process (pid 7)'', path = Some ''heap-allocated'',
           kind = Some 0, units = Some 0, amount = Some 9\<rparr>],
      hasMozMallocUsableSize = Some True\<rparr> 7 =
   Inr [(''gfx_textures'', 0), (''ghost_windows'', 0), (''heap_allocated'', 9),
      (''host_object_urls'', 0), (''private'', 0), (''resident'', 0),
      (''resident_unique'', 0), (''system_heap_allocated'', 0),
      (''vsize_max_contiguous'', 0), (''vsize'', 0), (''explicit'', 9),
      (''heap_overhead'', 0), (''heap_unclassified'', 5), (''images'', 4),
      (''js_main_runtime'', 0), (''top_none_detached'', 0)]"
proof -
  let ?a = "\<lparr>process = Some ''Main Process (pid 7)'', path = Some ''explicit/images/a'',
           kind = Some 1, units = Some 0, amount = Some 4\<rparr>"
  let ?b = "\<lparr>process = Some ''Main Process (pid 7)'', path = Some ''heap-allocated'',
           kind = Some 0, units = Some 0, amount = Some 9\<rparr>"
  let ?mr = "\<lparr>version = Some 1, reports = Some [?b, ?a], hasMozMallocUsableSize = Some True\<rparr>"
  let ?mr' = "\<lparr>version = Some 1, reports = Some [?a, ?b], hasMozMallocUsableSize = Some True\<rparr>"
  have r: "reports ?mr = Some [?b, ?a]" by simp
  have r': "reports ?mr' = Some [?a, ?b]" by simp
  have p: "mset [?a, ?b] = mset [?b, ?a]" by (simp add: add.commute)
  have g: "get_memory_measures ?mr 7 = Inr
     [(''gfx_textures'', 0), (''ghost_windows'', 0), (''heap_allocated'', 9),
      (''host_object_urls'', 0), (''private'', 0), (''resident'', 0),
      (''resident_unique'', 0), (''system_heap_allocated'', 0),
      (''vsize_max_contiguous'', 0), (''vsize'', 0), (''explicit'', 9),
      (''heap_overhead'', 0), (''heap_unclassified'', 5), (''images'', 4),
      (''js_main_runtime'', 0), (''top_none_detached'', 0)]"
    by code_simp
  show ?thesis by (rule permuted_reports [OF r r' p g])
qed

subsection \<open>C8: one report for \<^verbatim>\<open>resident\<close>\<close>

text \<open>
  C8: for pid 7 and a list of exactly one report, whose process contains \<^verbatim>\<open>(pid 7)\<close>,
  with path \<^verbatim>\<open>resident\<close>, kind non-heap, units bytes and amount 1000, the extraction
  succeeds with \<^verbatim>\<open>resident\<close> = 1000 and 0 under each of the fifteen other keys,
  \<^verbatim>\<open>explicit\<close> and \<^verbatim>\<open>heap_unclassified\<close> among them.
\<close>

theorem scenario_resident_only:
  assumes "contains proc ''(pid 7)''"
    and "reports mr = Some [\<lparr>process = Some proc, path = Some ''resident'',
      kind = Some KIND_NONHEAP, units = Some UNITS_BYTES, amount = Some 1000\<rparr>]"
  shows "get_memory_measures mr 7 =
    Inr [(''gfx_textures'', 0), (''ghost_windows'', 0), (''heap_allocated'', 0),
      (''host_object_urls'', 0), (''private'', 0), (''resident'', 1000),
      (''resident_unique'', 0), (''system_heap_allocated'', 0),
      (''vsize_max_contiguous'', 0), (''vsize'', 0), (''explicit'', 0),
      (''heap_overhead'', 0), (''heap_unclassified'', 0), (''images'', 0),
      (''js_main_runtime'', 0), (''top_none_detached'', 0)]"
proof -
  let ?r = "\<lparr>process = Some proc, path = Some ''resident'',
      kind = Some KIND_NONHEAP, units = Some UNITS_BYTES, amount = Some 1000\<rparr>"
  have m: "matches ''(pid 7)'' ?r" using assms(1) by (simp add: matches_def)
  have e: "report_error ''(pid 7)'' ?r = None" by (simp add: report_error_def)
  have b: "bucket ''resident'' = Some ''resident''"
    by (simp add: bucket_def dict_in_def metrics_measured_def)
  have k: "\<And>j. kind_amount ''(pid 7)'' j ?r = 0"
    by (simp add: kind_amount_def path_startswith_def)
  have t: "\<And>key. bucket_amount ''(pid 7)'' key ?r = (if key = ''resident'' then 1000 else 0)"
    using m b by (auto simp: bucket_amount_def amount_of_def)
  show ?thesis
    using m by (simp add: get_memory_measures_closed [OF assms(2)] pid_str_of_7 e
        memory_measures_def total_def k t)
qed

theorem scenario_resident_only_witness:
  "get_memory_measures
     \<lparr>version = Some 1,
      reports = Some [\<lparr>process = Some ''(pid 7)'', path = Some ''resident'',
        kind = Some KIND_NONHEAP, units = Some UNITS_BYTES, amount = Some 1000\<rparr>],
      hasMozMallocUsableSize = Some True\<rparr> 7 =
    Inr [(''gfx_textures'', 0), (''ghost_windows'', 0), (''heap_allocated'', 0),
      (''host_object_urls'', 0), (''private'', 0), (''resident'', 1000),
      (''resident_unique'', 0), (''system_heap_allocated'', 0),
      (''vsize_max_contiguous'', 0), (''vsize'', 0), (''explicit'', 0),
      (''heap_overhead'', 0), (''heap_unclassified'', 0), (''images'', 0),
      (''js_main_runtime'', 0), (''top_none_detached'', 0)]"
proof -
  have c: "contains ''(pid 7)'' ''(pid 7)''" by simp
  show ?thesis by (rule scenario_resident_only [OF c]) simp
qed

subsection \<open>C9: reports outside explicit/ are not validated\<close>

text \<open>
  C9: for a report of the process whose path is not under \<^verbatim>\<open>explicit/\<close>, whatever its
  kind and units are, the loop body raises nothing: it sets \<^verbatim>\<open>pid_found\<close> and adds the
  amount to \<^verbatim>\<open>js-main-runtime\<close> when the path is under \<^verbatim>\<open>js-main-runtime/\<close>, to the
  path's own key when the path is a key of \<^verbatim>\<open>metrics_measured\<close>, and to nothing otherwise
  (on a dict that has the keys it was created with, as it always has in the loop). The
  outcome of the whole extraction is the same when the kind and the units of such a report
  are replaced by any other values.
\<close>

theorem non_explicit_not_validated:
  assumes "matches (pid_str_of pid) r" and "path r = Some p"
    and "\<not> startswith p ''explicit/''"
    and "kind r = Some k" and "units r = Some u" and "amount r = Some a"
  shows "(\<forall>s. map fst (all_metrics s) = map fst (all_metrics initial_state) \<longrightarrow>
       process_report (pid_str_of pid) r s =
         Inr (s\<lparr>pid_found := True,
                all_metrics := map (\<lambda>(key, v).
                  (key, if (if startswith p ''js-main-runtime/'' then key = ''js-main-runtime''
                            else dict_in p metrics_measured \<and> key = p)
                        then v + a else v)) (all_metrics s)\<rparr>)) \<and>
     (\<forall>k' u' pre post. reports mr = Some (pre @ r # post) \<longrightarrow>
       get_memory_measures
         (mr\<lparr>reports := Some (pre @ r\<lparr>kind := Some k', units := Some u'\<rparr> # post)\<rparr>) pid =
       get_memory_measures mr pid)"
  using process_report_non_explicit [OF assms] get_memory_measures_retagged [OF assms]
  by blast

theorem non_explicit_not_validated_witness:
  "process_report (pid_str_of 7)
     \<lparr>process = Some ''Main Process (pid 7)'', path = Some ''js-main-runtime/gc-heap'',
      kind = Some 5, units = Some 3, amount = Some 12\<rparr> initial_state =
   Inr (initial_state\<lparr>pid_found := True,
          all_metrics := map (\<lambda>(key, v).
            (key, if (if startswith ''js-main-runtime/gc-heap'' ''js-main-runtime/''
                      then key = ''js-main-runtime''
                      else dict_in ''js-main-runtime/gc-heap'' metrics_measured \<and>
                        key = ''js-main-runtime/gc-heap'')
                  then v + 12 else v)) (all_metrics initial_state)\<rparr>)"
proof -
  let ?r = "\<lparr>process = Some ''Main Process (pid 7)'', path = Some ''js-main-runtime/gc-heap'',
      kind = Some 5, units = Some 3, amount = Some 12\<rparr>"
  have m: "matches (pid_str_of 7) ?r" by code_simp
  have p: "path ?r = Some ''js-main-runtime/gc-heap''" by simp
  have n: "\<not> startswith ''js-main-runtime/gc-heap'' ''explicit/''" by simp
  have k: "kind ?r = Some 5" by simp
  have u: "units ?r = Some 3" by simp
  have a: "amount ?r = Some 12" by simp
  have i: "map fst (all_metrics initial_state) = map fst (all_metrics initial_state)" by simp
  note t = non_explicit_not_validated [OF m p n k u a, THEN conjunct1]
  from t i show ?thesis by blast
qed

subsection \<open>C10: only the list of reports is read\<close>

text \<open>
  C10: two memory reports with the same \<^verbatim>\<open>reports\<close> entry give the same outcome for the
  same pid, the same dict or the same exception, whatever their \<^verbatim>\<open>version\<close> and
  \<^verbatim>\<open>hasMozMallocUsableSize\<close> entries are.
\<close>

theorem outcome_depends_on_reports_only:
  assumes "reports mr = reports mr'"
  shows "get_memory_measures mr pid = get_memory_measures mr' pid"
  using assms by (simp add: get_memory_measures_def)

theorem outcome_depends_on_reports_only_witness:
  "get_memory_measures
     \<lparr>version = Some 1,
      reports = Some [\<lparr>process = Some ''Main Process (pid 7)'', path = Some ''vsize'',
        kind = Some 0, units = Some 0, amount = Some 3\<rparr>],
      hasMozMallocUsableSize = Some True\<rparr> 7 =
   get_memory_measures
     \<lparr>version = Some 2,
      reports = Some [\<lparr>process = Some ''Main Process (pid 7)'', path = Some ''vsize'',
        kind = Some 0, units = Some 0, amount = Some 3\<rparr>],
      hasMozMallocUsableSize = None\<rparr> 7"
  by (rule outcome_depends_on_reports_only) simp

end
